theory Spec2Isabelle
  imports Complex_Main "HOL-Library.Word"
begin

section \<open>JavaScript values used by the front end\<close>

text \<open>
  A JavaScript string is a sequence of UTF-16 code units; \<open>length\<close>, \<open>slice\<close> and
  \<open>trim\<close> all work on code units. String literals of the source are written
  \<open>lit ''...''\<close>.
\<close>

type_synonym jsstring = "16 word list"

definition lit :: "string \<Rightarrow> jsstring" where
  "lit s = map (\<lambda>c. word_of_nat (of_char c)) s"

text \<open>
  \<open>Array.prototype.slice(start, end)\<close> and \<open>String.prototype.slice\<close>: a negative
  index counts from the end, both indices are clamped to the length, and an empty range
  gives the empty list.
\<close>

definition js_slice :: "'a list \<Rightarrow> int \<Rightarrow> int \<Rightarrow> 'a list" where
  "js_slice xs start end =
     (let len = int (length xs);
          k = (if start < 0 then max (len + start) 0 else min start len);
          final = (if end < 0 then max (len + end) 0 else min end len)
      in take (nat (final - k)) (drop (nat k) xs))"

text \<open>
  The code units that \<open>String.prototype.trim\<close> strips: ECMAScript WhiteSpace and
  LineTerminator (TAB, LF, VT, FF, CR, SP, NBSP, the Unicode space separators, LS, PS
  and the byte order mark).
\<close>

definition isWhiteSpace :: "16 word \<Rightarrow> bool" where
  "isWhiteSpace c \<longleftrightarrow>
     c \<in> {0x0009, 0x000A, 0x000B, 0x000C, 0x000D, 0x0020, 0x00A0, 0x1680,
          0x2000, 0x2001, 0x2002, 0x2003, 0x2004, 0x2005, 0x2006, 0x2007,
          0x2008, 0x2009, 0x200A, 0x2028, 0x2029, 0x202F, 0x205F, 0x3000, 0xFEFF}"

definition trim :: "jsstring \<Rightarrow> jsstring" where
  "trim s = rev (dropWhile isWhiteSpace (rev (dropWhile isWhiteSpace s)))"

text \<open>\<open>a || b\<close> on an optional string: \<open>undefined\<close> and \<open>''\<close> are falsy.\<close>

definition or_string :: "jsstring option \<Rightarrow> jsstring \<Rightarrow> jsstring" where
  "or_string a b = (case a of None \<Rightarrow> b | Some s \<Rightarrow> if s = [] then b else s)"

text \<open>
  A parsed JSON value. A JSON number is read as a double; \<open>JNum\<close> carries its value.
  The members of an object are kept in the order of the text.
\<close>

datatype json_value =
    JNull
  | JBool bool
  | JNum rat
  | JStr jsstring
  | JArr "json_value list"
  | JObj "(jsstring \<times> json_value) list"

text \<open>
  What the source throws. \<open>Error v\<close> is \<open>new Error(v)\<close>: its message is the string
  conversion of \<open>v\<close>, which is \<open>s\<close> itself for \<open>v = JStr s\<close>.
\<close>

datatype exn = SyntaxError | TypeError | Error json_value

text \<open>ToBoolean on a JSON value.\<close>

fun truthy :: "json_value \<Rightarrow> bool" where
  "truthy JNull = False"
| "truthy (JBool b) = b"
| "truthy (JNum n) = (n \<noteq> 0)"
| "truthy (JStr s) = (s \<noteq> [])"
| "truthy (JArr _) = True"
| "truthy (JObj _) = True"

text \<open>
  The property read \<open>v.key\<close> on a parsed JSON value: a TypeError on \<open>null\<close>,
  \<open>undefined\<close> (\<open>None\<close>) on a primitive, an array or an object without the key; of a
  key written twice JSON.parse keeps the last.
\<close>

fun get_prop :: "json_value \<Rightarrow> jsstring \<Rightarrow> exn + json_value option" where
  "get_prop JNull key = Inl TypeError"
| "get_prop (JObj kvs) key = Inr (map_of (rev kvs) key)"
| "get_prop _ key = Inr None"

text \<open>\<open>a || b\<close> where \<open>a\<close> is the result of a property read.\<close>

definition or_value :: "json_value option \<Rightarrow> json_value \<Rightarrow> json_value" where
  "or_value a b = (case a of None \<Rightarrow> b | Some v \<Rightarrow> if truthy v then v else b)"

section \<open>services/api: the fetch wrappers\<close>

text \<open>
  The part of a fetch \<open>Response\<close> the wrappers read: the \<open>ok\<close> flag and the outcome of
  \<open>response.json()\<close>, which rejects (\<open>Inl\<close>) when the body is not JSON text.
\<close>

record response =
  ok :: bool
  json :: "exn + json_value"

text \<open>
  Each wrapper awaits \<open>fetch\<close> and maps the response; the request it builds is not part
  of the model, the response received is the argument. A rejected promise is \<open>Inl\<close>.
\<close>

definition uploadResume :: "response \<Rightarrow> exn + json_value" where
  "uploadResume response =
     (if \<not> ok response then
        (case json response of
           Inl e \<Rightarrow> Inl e
         | Inr errorData \<Rightarrow>
             (case get_prop errorData (lit ''detail'') of
                Inl e \<Rightarrow> Inl e
              | Inr detail \<Rightarrow> Inl (Error (or_value detail (JStr (lit ''Failed to upload resume''))))))
      else json response)"

definition confirmOnboarding :: "response \<Rightarrow> exn + json_value" where
  "confirmOnboarding response =
     (if \<not> ok response then
        (case json response of
           Inl e \<Rightarrow> Inl e
         | Inr errorData \<Rightarrow>
             (case get_prop errorData (lit ''detail'') of
                Inl e \<Rightarrow> Inl e
              | Inr detail \<Rightarrow>
                  Inl (Error (or_value detail (JStr (lit ''Failed to confirm onboarding details''))))))
      else json response)"

definition createChat :: "response \<Rightarrow> exn + json_value" where
  "createChat response =
     (if \<not> ok response then
        (case json response of
           Inl e \<Rightarrow> Inl e
         | Inr errorData \<Rightarrow>
             (case get_prop errorData (lit ''detail'') of
                Inl e \<Rightarrow> Inl e
              | Inr detail \<Rightarrow> Inl (Error (or_value detail (JStr (lit ''Failed to create chat''))))))
      else json response)"

definition sendMessage :: "response \<Rightarrow> exn + json_value" where
  "sendMessage response =
     (if \<not> ok response then
        (case json response of
           Inl e \<Rightarrow> Inl e
         | Inr errorData \<Rightarrow>
             (case get_prop errorData (lit ''detail'') of
                Inl e \<Rightarrow> Inl e
              | Inr detail \<Rightarrow> Inl (Error (or_value detail (JStr (lit ''Failed to send message''))))))
      else json response)"

definition getChatMessages :: "response \<Rightarrow> exn + json_value" where
  "getChatMessages response =
     (if \<not> ok response then
        (case json response of
           Inl e \<Rightarrow> Inl e
         | Inr errorData \<Rightarrow>
             (case get_prop errorData (lit ''detail'') of
                Inl e \<Rightarrow> Inl e
              | Inr detail \<Rightarrow> Inl (Error (or_value detail (JStr (lit ''Failed to get chat messages''))))))
      else json response)"

definition getChatHistory :: "response \<Rightarrow> exn + json_value" where
  "getChatHistory response =
     (if \<not> ok response then
        (case json response of
           Inl e \<Rightarrow> Inl e
         | Inr errorData \<Rightarrow>
             (case get_prop errorData (lit ''detail'') of
                Inl e \<Rightarrow> Inl e
              | Inr detail \<Rightarrow> Inl (Error (or_value detail (JStr (lit ''Failed to get chat history''))))))
      else json response)"

definition deleteChatSession :: "response \<Rightarrow> exn + json_value" where
  "deleteChatSession response =
     (if \<not> ok response then
        (case json response of
           Inl e \<Rightarrow> Inl e
         | Inr errorData \<Rightarrow>
             (case get_prop errorData (lit ''detail'') of
                Inl e \<Rightarrow> Inl e
              | Inr detail \<Rightarrow> Inl (Error (or_value detail (JStr (lit ''Failed to delete chat session''))))))
      else json response)"

text \<open>The seven wrappers, each with the fallback string of its own \<open>throw\<close>.\<close>

definition api_functions :: "((response \<Rightarrow> exn + json_value) \<times> jsstring) list" where
  "api_functions =
     [(uploadResume, lit ''Failed to upload resume''),
      (confirmOnboarding, lit ''Failed to confirm onboarding details''),
      (createChat, lit ''Failed to create chat''),
      (sendMessage, lit ''Failed to send message''),
      (getChatMessages, lit ''Failed to get chat messages''),
      (getChatHistory, lit ''Failed to get chat history''),
      (deleteChatSession, lit ''Failed to delete chat session'')]"

subsection \<open>The typed payloads\<close>

record Highlights =
  Qualifications :: "jsstring list option"
  Responsibilities :: "jsstring list option"

record JobCardData =
  job_id :: jsstring
  job_title :: jsstring
  employer_name :: jsstring
  job_description :: jsstring
  job_location :: "jsstring option"
  job_salary :: "jsstring option"
  job_employment_type :: "jsstring option"
  job_apply_link :: "jsstring option"
  job_posted_at :: "jsstring option"
  job_is_remote :: "bool option"
  employer_logo :: "jsstring option"
  job_highlights :: "Highlights option"

text \<open>\<open>ChatMessageResponse\<close>; the fields carry the prefix \<open>r_\<close>.\<close>

record ChatMessageResponse =
  r_message :: jsstring
  r_jobs :: "JobCardData list option"
  r_selected_job_details :: "JobCardData option"

section \<open>The types of App used by the components\<close>

text \<open>
  \<open>Job\<close>, \<open>Message\<close> and \<open>Chat\<close> are declared in App; their fields are the ones the
  components read and write. The fields carry the prefixes \<open>j_\<close>, \<open>m_\<close> and \<open>c_\<close>.
  A message id is always built by the template \<open>msg-${n}\<close>, and \<open>m_id\<close> is that
  \<open>n\<close>; a timestamp is the time value of the \<open>Date\<close>.
\<close>

record Job =
  j_id :: jsstring
  j_title :: jsstring
  j_company :: jsstring
  j_role :: jsstring
  j_description :: jsstring
  j_location :: jsstring
  j_salary :: jsstring
  j_applyLink :: "jsstring option"
  j_postedAt :: "jsstring option"
  j_isRemote :: "bool option"
  j_employerLogo :: "jsstring option"
  j_highlights :: "Highlights option"

datatype sender = User | Bot

record Message =
  m_id :: int
  m_sender :: sender
  m_content :: jsstring
  m_timestamp :: int

record Chat =
  c_id :: jsstring
  c_title :: jsstring
  c_messages :: "Message list"
  c_timestamp :: int

section \<open>ChatPage\<close>

definition convertJobCardDataToJob :: "JobCardData \<Rightarrow> Job" where
  "convertJobCardDataToJob jobData =
     \<lparr> j_id = job_id jobData,
       j_title = job_title jobData,
       j_company = employer_name jobData,
       j_role = or_string (job_employment_type jobData) (lit ''Full-time''),
       j_description = job_description jobData,
       j_location = or_string (job_location jobData) (lit ''Not specified''),
       j_salary = or_string (job_salary jobData) (lit ''Not disclosed''),
       j_applyLink = job_apply_link jobData,
       j_postedAt = job_posted_at jobData,
       j_isRemote = job_is_remote jobData,
       j_employerLogo = employer_logo jobData,
       j_highlights = job_highlights jobData \<rparr>"

subsection \<open>Pagination of the job list\<close>

definition jobsPerPage :: int where
  "jobsPerPage = 3"

definition totalPages :: "Job list \<Rightarrow> int" where
  "totalPages displayedJobs = \<lceil>(of_nat (length displayedJobs) :: rat) / of_int jobsPerPage\<rceil>"

definition paginatedJobs :: "Job list \<Rightarrow> int \<Rightarrow> Job list" where
  "paginatedJobs displayedJobs currentPage =
     js_slice displayedJobs ((currentPage - 1) * jobsPerPage) (currentPage * jobsPerPage)"

subsection \<open>State and effects\<close>

text \<open>The \<open>useState\<close> cells of ChatPage.\<close>

record ChatPage =
  currentChat :: "Chat option"
  message :: jsstring
  displayedJobs :: "Job list"
  currentPage :: int
  showJobs :: bool
  isLoading :: bool
  isSending :: bool
  selectedJobId :: "jsstring option"
  actualChatId :: "jsstring option"

definition initial_ChatPage :: ChatPage where
  "initial_ChatPage =
     \<lparr> currentChat = None, message = [], displayedJobs = [], currentPage = 1,
       showJobs = False, isLoading = False, isSending = False,
       selectedJobId = None, actualChatId = None \<rparr>"

text \<open>
  What a handler does outside the component's own state, in the order it does it:
  requests, calls of callback props, toasts, console output, \<open>window.open\<close>.
  \<open>Throws e\<close> ends the list of a handler that throws \<open>e\<close>: what the handler has
  not reached is not done.
  \<open>ToastFound n\<close> is the toast \<open>Found ${n} matching jobs!\<close>, and
  \<open>ToastApplicationRecorded job\<close> the toast \<open>Application recorded!\<close> with its
  description of the job.
\<close>

datatype effect =
    CallSendMessage jsstring jsstring jsstring "jsstring option"
  | CallUpdateChat jsstring "Message list" jsstring
  | ToastFound nat
  | ToastSuccess jsstring
  | ToastError jsstring
  | ToastInfo jsstring
  | ToastApplicationRecorded Job
  | ConsoleError exn
  | ConsoleLog Job
  | StopPropagation
  | WindowOpen jsstring
  | CallOnSave Job
  | CallOnUnsave Job
  | CallOnApply Job
  | CallOnChoose Job
  | CallOnClose
  | Throws exn

text \<open>The two clock reads of a handler: \<open>Date.now()\<close> and \<open>new Date()\<close>.\<close>

record clock =
  date_now :: int
  new_date :: int

subsection \<open>handleSendMessage\<close>

text \<open>
  The handler is an async function. It runs to the \<open>await\<close> of the request
  (\<open>handleSendMessage_start\<close>), and resumes when the request settles
  (\<open>handleSendMessage_settle\<close>) with the constants it captured before the
  \<open>await\<close>, whatever the state has become meanwhile. A handler is built by the
  latest render, so an invocation reads the state as it is.
\<close>

record send_closure =
  sc_currentChat :: Chat
  sc_actualChatId :: jsstring
  sc_messageText :: jsstring
  sc_updatedMessages :: "Message list"

text \<open>The early return: \<open>!messageText.trim() || !currentChat || !actualChatId || isSending\<close>.\<close>

definition send_guard :: "ChatPage \<Rightarrow> jsstring \<Rightarrow> bool" where
  "send_guard st messageText \<longleftrightarrow>
     trim messageText = [] \<or> currentChat st = None
     \<or> (case actualChatId st of None \<Rightarrow> True | Some i \<Rightarrow> i = [])
     \<or> isSending st"

definition handleSendMessage_start ::
  "jsstring \<Rightarrow> ChatPage \<Rightarrow> jsstring option \<Rightarrow> clock
     \<Rightarrow> ChatPage \<times> effect list \<times> send_closure option" where
  "handleSendMessage_start userEmail st text clk =
     (let messageText = or_string text (message st) in
      if send_guard st messageText then (st, [], None)
      else
        (case (currentChat st, actualChatId st) of
           (Some chat, Some chatId) \<Rightarrow>
             (let newUserMessage =
                    \<lparr> m_id = date_now clk, m_sender = User,
                      m_content = messageText, m_timestamp = new_date clk \<rparr>;
                  updatedMessages = c_messages chat @ [newUserMessage]
              in (st\<lparr> isSending := True, message := [],
                      currentChat := Some (chat\<lparr> c_messages := updatedMessages \<rparr>) \<rparr>,
                  [CallSendMessage userEmail chatId messageText
                     (case selectedJobId st of
                        None \<Rightarrow> None
                      | Some j \<Rightarrow> if j = [] then None else Some j)],
                  Some \<lparr> sc_currentChat = chat, sc_actualChatId = chatId,
                         sc_messageText = messageText,
                         sc_updatedMessages = updatedMessages \<rparr>))
         | _ \<Rightarrow> (st, [], None)))"

definition handleSendMessage_settle ::
  "send_closure \<Rightarrow> exn + ChatMessageResponse \<Rightarrow> clock \<Rightarrow> ChatPage
     \<Rightarrow> ChatPage \<times> effect list" where
  "handleSendMessage_settle sc outcome clk st =
     (case outcome of
        Inr response \<Rightarrow>
          (let chat = sc_currentChat sc;
               messageText = sc_messageText sc;
               newBotMessage =
                 \<lparr> m_id = date_now clk + 1, m_sender = Bot,
                   m_content = r_message response, m_timestamp = new_date clk \<rparr>;
               messagesWithBot = sc_updatedMessages sc @ [newBotMessage];
               newTitle =
                 (if length (c_messages chat) = 1
                  then js_slice messageText 0 50
                         @ (if length messageText > 50 then lit ''...'' else [])
                  else c_title chat);
               finalChat = chat\<lparr> c_messages := messagesWithBot, c_title := newTitle \<rparr>;
               st1 = st\<lparr> currentChat := Some finalChat \<rparr>;
               found = (case r_jobs response of None \<Rightarrow> False | Some jobs \<Rightarrow> length jobs > 0);
               jobs = (case r_jobs response of None \<Rightarrow> [] | Some jobs \<Rightarrow> jobs);
               st2 = (if found
                      then st1\<lparr> displayedJobs := map convertJobCardDataToJob jobs,
                                showJobs := True, currentPage := 1 \<rparr>
                      else st1)
           in (st2\<lparr> selectedJobId := None, isSending := False \<rparr>,
               [CallUpdateChat (sc_actualChatId sc) messagesWithBot newTitle]
               @ (if found then [ToastFound (length jobs)] else [])
               @ (case r_selected_job_details response of
                    None \<Rightarrow> []
                  | Some details \<Rightarrow> [ConsoleLog (convertJobCardDataToJob details)])))
      | Inl error \<Rightarrow>
          (st\<lparr> currentChat :=
                  Some ((sc_currentChat sc)\<lparr> c_messages := c_messages (sc_currentChat sc) \<rparr>),
               isSending := False \<rparr>,
           [ConsoleError error,
            ToastError (lit ''Failed to send message. Please try again.'')]))"

text \<open>
  One whole run of the handler when nothing else happens between the request and
  its outcome.
\<close>

definition handleSendMessage ::
  "jsstring \<Rightarrow> ChatPage \<Rightarrow> jsstring option \<Rightarrow> clock
     \<Rightarrow> exn + ChatMessageResponse \<Rightarrow> clock \<Rightarrow> ChatPage \<times> effect list" where
  "handleSendMessage userEmail st text clk outcome clk' =
     (case handleSendMessage_start userEmail st text clk of
        (st1, effs, None) \<Rightarrow> (st1, effs)
      | (st1, effs, Some sc) \<Rightarrow>
          (case handleSendMessage_settle sc outcome clk' st1 of
             (st2, effs') \<Rightarrow> (st2, effs @ effs')))"

text \<open>
  An invocation of the handler that a render built. The constants of the handler,
  \<open>currentChat\<close>, \<open>message\<close>, \<open>actualChatId\<close>, \<open>isSending\<close> and
  \<open>selectedJobId\<close>, are those of the render, \<open>rendered\<close>, and do not change when
  the state does; its three state updates set values, and they are applied to the
  state as it is at the invocation, \<open>st\<close>. When no state update is pending since the
  render, \<open>rendered\<close> is \<open>st\<close>.
\<close>

definition handleSendMessage_in_render ::
  "jsstring \<Rightarrow> ChatPage \<Rightarrow> ChatPage \<Rightarrow> jsstring option \<Rightarrow> clock
     \<Rightarrow> ChatPage \<times> effect list \<times> send_closure option" where
  "handleSendMessage_in_render userEmail rendered st text clk =
     (let messageText = or_string text (message rendered) in
      if send_guard rendered messageText then (st, [], None)
      else
        (case (currentChat rendered, actualChatId rendered) of
           (Some chat, Some chatId) \<Rightarrow>
             (let newUserMessage =
                    \<lparr> m_id = date_now clk, m_sender = User,
                      m_content = messageText, m_timestamp = new_date clk \<rparr>;
                  updatedMessages = c_messages chat @ [newUserMessage]
              in (st\<lparr> isSending := True, message := [],
                      currentChat := Some (chat\<lparr> c_messages := updatedMessages \<rparr>) \<rparr>,
                  [CallSendMessage userEmail chatId messageText
                     (case selectedJobId rendered of
                        None \<Rightarrow> None
                      | Some j \<Rightarrow> if j = [] then None else Some j)],
                  Some \<lparr> sc_currentChat = chat, sc_actualChatId = chatId,
                         sc_messageText = messageText,
                         sc_updatedMessages = updatedMessages \<rparr>))
         | _ \<Rightarrow> (st, [], None)))"



subsection \<open>The pagination controls\<close>






subsection \<open>The page as a transition system\<close>










section \<open>JobCard and JobDetailModal\<close>

subsection \<open>Rendering of the modals\<close>

text \<open>
  A modal is rendered through \<open>createPortal\<close> into
  \<open>document.getElementById('modal-root') || document.body\<close>; \<open>has_element\<close> says
  whether the document has an element with that id. A component that returns \<open>null\<close>
  renders \<open>None\<close>.
\<close>

datatype modal_root = ModalRootElement | DocumentBody

definition modalRoot :: "bool \<Rightarrow> modal_root" where
  "modalRoot has_element = (if has_element then ModalRootElement else DocumentBody)"

datatype 'a portal = Portal 'a modal_root

text \<open>
  The content of a confirmation modal: the title and the company of the job in the
  question, above the two buttons that call \<open>onCancel\<close> and \<open>onConfirm\<close>. Both
  files declare their own \<open>ApplyConfirmationModal\<close>.
\<close>

record confirmation_content =
  cc_title :: jsstring
  cc_company :: jsstring

definition JobCard_ApplyConfirmationModal ::
  "bool \<Rightarrow> Job \<Rightarrow> bool \<Rightarrow> confirmation_content portal option" where
  "JobCard_ApplyConfirmationModal isOpen job has_element =
     (if \<not> isOpen then None
      else Some (Portal \<lparr> cc_title = j_title job, cc_company = j_company job \<rparr>
                   (modalRoot has_element)))"

definition JobDetailModal_ApplyConfirmationModal ::
  "bool \<Rightarrow> Job \<Rightarrow> bool \<Rightarrow> confirmation_content portal option" where
  "JobDetailModal_ApplyConfirmationModal isOpen job has_element =
     (if \<not> isOpen then None
      else Some (Portal \<lparr> cc_title = j_title job, cc_company = j_company job \<rparr>
                   (modalRoot has_element)))"

text \<open>
  The content of the detail modal, as far as it depends on the props and the state: the
  job, the badges, the two footer buttons, and the confirmation modal nested in it.
\<close>

record detail_content =
  dc_job :: Job
  dc_applied_badge :: bool
  dc_saved_badge :: bool
  dc_save_label :: jsstring
  dc_apply_disabled :: bool
  dc_apply_label :: jsstring
  dc_confirmation :: "confirmation_content portal option"

definition JobDetailModal ::
  "Job \<Rightarrow> bool \<Rightarrow> bool \<Rightarrow> bool \<Rightarrow> bool \<Rightarrow> bool \<Rightarrow> detail_content portal option" where
  "JobDetailModal job isOpen isSaved isApplied showApplyConfirmation has_element =
     (if \<not> isOpen then None
      else Some (Portal
                   \<lparr> dc_job = job,
                     dc_applied_badge = isApplied,
                     dc_saved_badge = (isSaved \<and> \<not> isApplied),
                     dc_save_label = (if isSaved then lit ''Unsave Job'' else lit ''Save Job''),
                     dc_apply_disabled = isApplied,
                     dc_apply_label =
                       (if isApplied then lit ''Already Applied'' else lit ''Apply Now''),
                     dc_confirmation =
                       JobDetailModal_ApplyConfirmationModal showApplyConfirmation job
                         has_element \<rparr>
                   (modalRoot has_element)))"

subsection \<open>Handlers of JobDetailModal\<close>

text \<open>
  The state of a JobDetailModal is its \<open>showApplyConfirmation\<close> flag, and a handler
  returns the new flag with what it called. \<open>open_apply_link\<close> is
  \<open>if (job.applyLink) window.open(job.applyLink, '_blank')\<close>, which both components
  contain.
\<close>

definition open_apply_link :: "Job \<Rightarrow> effect list" where
  "open_apply_link job =
     (case j_applyLink job of
        None \<Rightarrow> []
      | Some link \<Rightarrow> if link = [] then [] else [WindowOpen link])"

definition JobDetailModal_handleApplyClick :: "Job \<Rightarrow> bool \<Rightarrow> bool \<Rightarrow> bool \<times> effect list" where
  "JobDetailModal_handleApplyClick job isApplied showApplyConfirmation =
     (if isApplied then (showApplyConfirmation, [])
      else (True, open_apply_link job))"

definition JobDetailModal_handleConfirmApply :: "Job \<Rightarrow> bool \<Rightarrow> bool \<times> effect list" where
  "JobDetailModal_handleConfirmApply job showApplyConfirmation = (False, [CallOnApply job])"

definition JobDetailModal_handleCancelApply :: "bool \<Rightarrow> bool" where
  "JobDetailModal_handleCancelApply showApplyConfirmation = False"

text \<open>
  A callback prop is a function only when the parent passes one: \<open>onSave_given\<close> and
  \<open>onUnsave_given\<close> say whether \<open>onSave\<close> and \<open>onUnsave\<close> were passed. A call of
  a prop that was not passed is a call of \<open>undefined\<close> and throws a TypeError.
\<close>

definition JobDetailModal_handleSaveToggle :: "Job \<Rightarrow> bool \<Rightarrow> bool \<Rightarrow> bool \<Rightarrow> effect list" where
  "JobDetailModal_handleSaveToggle job isSaved onSave_given onUnsave_given =
     (if isSaved
      then (if onUnsave_given then [CallOnUnsave job] else [Throws TypeError])
      else (if onSave_given then [CallOnSave job] else [Throws TypeError]))"

subsection \<open>Handlers of JobCard\<close>

record JobCard_state =
  showDetailModal :: bool
  showApplyConfirmation :: bool

definition JobCard_handleSaveToggle :: "Job \<Rightarrow> bool \<Rightarrow> bool \<Rightarrow> bool \<Rightarrow> effect list" where
  "JobCard_handleSaveToggle job isSaved onSave_given onUnsave_given =
     StopPropagation #
     (if isSaved
      then (if onUnsave_given
            then [CallOnUnsave job, ToastSuccess (lit ''Job removed from saved!'')]
            else [Throws TypeError])
      else (if onSave_given
            then [CallOnSave job, ToastSuccess (lit ''Job saved successfully!'')]
            else [Throws TypeError]))"

definition JobCard_handleApply ::
  "Job \<Rightarrow> bool \<Rightarrow> JobCard_state \<Rightarrow> JobCard_state \<times> effect list" where
  "JobCard_handleApply job isApplied st =
     (if isApplied
      then (st, [StopPropagation, ToastInfo (lit ''You already applied to this job'')])
      else (st\<lparr> showApplyConfirmation := True \<rparr>, StopPropagation # open_apply_link job))"

definition JobCard_handleConfirmApply :: "Job \<Rightarrow> JobCard_state \<Rightarrow> JobCard_state \<times> effect list" where
  "JobCard_handleConfirmApply job st =
     (st\<lparr> showApplyConfirmation := False \<rparr>, [CallOnApply job, ToastApplicationRecorded job])"

definition JobCard_handleCancelApply :: "JobCard_state \<Rightarrow> JobCard_state" where
  "JobCard_handleCancelApply st = st\<lparr> showApplyConfirmation := False \<rparr>"

definition JobCard_handleChoose :: "Job \<Rightarrow> effect list" where
  "JobCard_handleChoose job = [StopPropagation, CallOnChoose job]"

definition JobCard_handleCardClick :: "JobCard_state \<Rightarrow> JobCard_state" where
  "JobCard_handleCardClick st = st\<lparr> showDetailModal := True \<rparr>"

text \<open>
  What JobCard passes to its JobDetailModal: \<open>onClose\<close> hides the modal, \<open>onApply\<close>
  calls the card's \<open>onApply\<close> and shows the toast, \<open>onSave\<close> and \<open>onUnsave\<close>
  are passed on as the card received them. An exception of a modal handler reaches no
  callback of the card.
\<close>

fun JobCard_modal_callback :: "JobCard_state \<Rightarrow> effect \<Rightarrow> JobCard_state \<times> effect list" where
  "JobCard_modal_callback st CallOnClose = (st\<lparr> showDetailModal := False \<rparr>, [])"
| "JobCard_modal_callback st (CallOnApply j) = (st, [CallOnApply j, ToastApplicationRecorded j])"
| "JobCard_modal_callback st e = (st, [e])"

fun JobCard_modal_callbacks :: "JobCard_state \<Rightarrow> effect list \<Rightarrow> JobCard_state \<times> effect list" where
  "JobCard_modal_callbacks st [] = (st, [])"
| "JobCard_modal_callbacks st (e # es) =
     (case JobCard_modal_callback st e of
        (st1, out1) \<Rightarrow>
          (case JobCard_modal_callbacks st1 es of (st2, out2) \<Rightarrow> (st2, out1 @ out2)))"

subsection \<open>A card with its modals as a transition system\<close>

text \<open>
  The state of a JobCard and of the JobDetailModal it holds. An event is a click,
  together with the props of the card at that moment; the job of the card is fixed.
  A click on a control that is not rendered is \<open>None\<close>. The Apply buttons are taken to
  fire even when they are disabled.
\<close>

record JobCard_tree =
  card :: JobCard_state
  modal :: bool

definition initial_JobCard :: JobCard_tree where
  "initial_JobCard =
     \<lparr> card = \<lparr> showDetailModal = False, showApplyConfirmation = False \<rparr>, modal = False \<rparr>"

record card_props =
  isSaved :: bool
  isApplied :: bool
  onSave_given :: bool
  onUnsave_given :: bool

text \<open>
  The props ChatPage gives to the card of a job on the page: \<open>job\<close>, \<open>onSave\<close>,
  \<open>onApply\<close>, \<open>onChoose\<close>, \<open>isSaved\<close> and \<open>isApplied\<close>, the two flags by
  \<open>savedJobs.some\<close> and \<open>appliedJobs.some\<close> on the job id. It passes no
  \<open>onUnsave\<close>.
\<close>

definition ChatPage_JobCard_props :: "Job list \<Rightarrow> Job list \<Rightarrow> Job \<Rightarrow> card_props" where
  "ChatPage_JobCard_props savedJobs appliedJobs job =
     \<lparr> isSaved = list_ex (\<lambda>j. j_id j = j_id job) savedJobs,
       isApplied = list_ex (\<lambda>j. j_id j = j_id job) appliedJobs,
       onSave_given = True,
       onUnsave_given = False \<rparr>"

datatype card_event =
    ClickCard
  | ClickSaveToggle
  | ClickApply
  | ClickChoose
  | ClickConfirmApply
  | ClickCancelApply
  | ModalClickClose
  | ModalClickSaveToggle
  | ModalClickApply
  | ModalClickConfirmApply
  | ModalClickCancelApply

definition modal_rendered :: "Job \<Rightarrow> bool \<Rightarrow> card_props \<Rightarrow> JobCard_tree \<Rightarrow> bool" where
  "modal_rendered job has_element props t \<longleftrightarrow>
     JobDetailModal job (showDetailModal (card t)) (isSaved props) (isApplied props) (modal t)
       has_element \<noteq> None"

definition modal_confirmation_rendered ::
  "Job \<Rightarrow> bool \<Rightarrow> card_props \<Rightarrow> JobCard_tree \<Rightarrow> bool" where
  "modal_confirmation_rendered job has_element props t \<longleftrightarrow>
     (case JobDetailModal job (showDetailModal (card t)) (isSaved props) (isApplied props)
             (modal t) has_element of
        None \<Rightarrow> False
      | Some (Portal content container) \<Rightarrow> dc_confirmation content \<noteq> None)"

definition from_modal ::
  "JobCard_tree \<Rightarrow> bool \<times> effect list \<Rightarrow> (JobCard_tree \<times> effect list) option" where
  "from_modal t r =
     (case JobCard_modal_callbacks (card t) (snd r) of
        (st, out) \<Rightarrow> Some (\<lparr> card = st, modal = fst r \<rparr>, out))"

fun card_step ::
  "Job \<Rightarrow> bool \<Rightarrow> JobCard_tree \<Rightarrow> card_props \<times> card_event
     \<Rightarrow> (JobCard_tree \<times> effect list) option" where
  "card_step job has_element t (props, ClickCard) =
     Some (t\<lparr> card := JobCard_handleCardClick (card t) \<rparr>, [])"
| "card_step job has_element t (props, ClickSaveToggle) =
     Some (t, JobCard_handleSaveToggle job (isSaved props) (onSave_given props)
                (onUnsave_given props))"
| "card_step job has_element t (props, ClickApply) =
     (case JobCard_handleApply job (isApplied props) (card t) of
        (st, effs) \<Rightarrow> Some (t\<lparr> card := st \<rparr>, effs))"
| "card_step job has_element t (props, ClickChoose) =
     Some (t, JobCard_handleChoose job)"
| "card_step job has_element t (props, ClickConfirmApply) =
     (if JobCard_ApplyConfirmationModal (showApplyConfirmation (card t)) job has_element = None
      then None
      else (case JobCard_handleConfirmApply job (card t) of
              (st, effs) \<Rightarrow> Some (t\<lparr> card := st \<rparr>, effs)))"
| "card_step job has_element t (props, ClickCancelApply) =
     (if JobCard_ApplyConfirmationModal (showApplyConfirmation (card t)) job has_element = None
      then None
      else Some (t\<lparr> card := JobCard_handleCancelApply (card t) \<rparr>, []))"
| "card_step job has_element t (props, ModalClickClose) =
     (if modal_rendered job has_element props t
      then from_modal t (modal t, [CallOnClose])
      else None)"
| "card_step job has_element t (props, ModalClickSaveToggle) =
     (if modal_rendered job has_element props t
      then from_modal t (modal t, JobDetailModal_handleSaveToggle job (isSaved props)
                                    (onSave_given props) (onUnsave_given props))
      else None)"
| "card_step job has_element t (props, ModalClickApply) =
     (if modal_rendered job has_element props t
      then from_modal t (JobDetailModal_handleApplyClick job (isApplied props) (modal t))
      else None)"
| "card_step job has_element t (props, ModalClickConfirmApply) =
     (if modal_confirmation_rendered job has_element props t
      then from_modal t (JobDetailModal_handleConfirmApply job (modal t))
      else None)"
| "card_step job has_element t (props, ModalClickCancelApply) =
     (if modal_confirmation_rendered job has_element props t
      then from_modal t (JobDetailModal_handleCancelApply (modal t), [])
      else None)"

fun card_run ::
  "Job \<Rightarrow> bool \<Rightarrow> JobCard_tree \<Rightarrow> (card_props \<times> card_event) list
     \<Rightarrow> (JobCard_tree \<times> effect list) option" where
  "card_run job has_element t [] = Some (t, [])"
| "card_run job has_element t (e # es) =
     (case card_step job has_element t e of
        None \<Rightarrow> None
      | Some (t1, effs1) \<Rightarrow>
          (case card_run job has_element t1 es of
             None \<Rightarrow> None
           | Some (t2, effs2) \<Rightarrow> Some (t2, effs1 @ effs2)))"

text \<open>The effects that are calls of a callback prop.\<close>

fun is_prop_call :: "effect \<Rightarrow> bool" where
  "is_prop_call (CallUpdateChat _ _ _) = True"
| "is_prop_call (CallOnSave _) = True"
| "is_prop_call (CallOnUnsave _) = True"
| "is_prop_call (CallOnApply _) = True"
| "is_prop_call (CallOnChoose _) = True"
| "is_prop_call CallOnClose = True"
| "is_prop_call _ = False"

text \<open>The clicks on a confirm button.\<close>

definition is_confirm :: "card_event \<Rightarrow> bool" where
  "is_confirm ev \<longleftrightarrow> ev = ClickConfirmApply \<or> ev = ModalClickConfirmApply"

section \<open>Invariants\<close>


section \<open>Concrete inputs\<close>

text \<open>
  Three responses: an error whose \<open>detail\<close> is the empty string, a success whose body
  is not JSON text, and an error with a \<open>detail\<close> message.
\<close>

definition empty_detail_response :: response where
  "empty_detail_response = \<lparr> ok = False, json = Inr (JObj [(lit ''detail'', JStr [])]) \<rparr>"

definition not_json_ok_response :: response where
  "not_json_ok_response = \<lparr> ok = True, json = Inl SyntaxError \<rparr>"

definition chat_not_found_response :: response where
  "chat_not_found_response =
     \<lparr> ok = False, json = Inr (JObj [(lit ''detail'', JStr (lit ''Chat not found''))]) \<rparr>"

text \<open>A job card whose optional strings are present and empty.\<close>

definition blank_fields_card :: JobCardData where
  "blank_fields_card =
     \<lparr> job_id = lit ''j1'', job_title = lit ''Engineer'', employer_name = lit ''Acme'',
       job_description = lit ''Build things'', job_location = Some [], job_salary = Some [],
       job_employment_type = Some [], job_apply_link = None, job_posted_at = None,
       job_is_remote = None, employer_logo = None, job_highlights = None \<rparr>"

text \<open>
  A chat that holds the greeting of the bot, the page once that chat is loaded, the same
  page with a job selected, a clock, a reply without jobs, the page while the message
  \<open>hi\<close> is being sent, and a page that shows four jobs. The events: the chat is
  loaded; then \<open>hi\<close> is sent; then the send handler is invoked again, in
  \<open>two_sends\<close> the handler of the render that followed the first send, in
  \<open>double_send\<close> the handler of the same render as the first.
\<close>

definition demo_chat :: Chat where
  "demo_chat =
     \<lparr> c_id = lit ''c1'', c_title = lit ''New chat'',
       c_messages = [\<lparr> m_id = 0, m_sender = Bot, m_content = lit ''Hello'', m_timestamp = 0 \<rparr>],
       c_timestamp = 0 \<rparr>"

definition ready_page :: ChatPage where
  "ready_page = initial_ChatPage\<lparr> currentChat := Some demo_chat, actualChatId := Some (lit ''c1'') \<rparr>"

definition selected_page :: ChatPage where
  "selected_page = ready_page\<lparr> selectedJobId := Some (lit ''j1'') \<rparr>"

definition tick :: "int \<Rightarrow> clock" where
  "tick t = \<lparr> date_now = t, new_date = t \<rparr>"

definition plain_reply :: ChatMessageResponse where
  "plain_reply = \<lparr> r_message = lit ''ok'', r_jobs = None, r_selected_job_details = None \<rparr>"







text \<open>
  A job without an apply link and the same job with one; the props ChatPage gives
  their card while the job is neither saved nor applied to, once it is applied to, and
  once it is saved; the two clicks of an application; the same two clicks with the job
  applied to before the second; and an application started on the card, made and
  confirmed in the detail modal, and then confirmed on the card.
\<close>

definition demo_job :: Job where
  "demo_job = convertJobCardDataToJob blank_fields_card"

definition linked_job :: Job where
  "linked_job = demo_job\<lparr> j_applyLink := Some (lit ''https://jobs.example/apply'') \<rparr>"

definition not_applied :: card_props where
  "not_applied = ChatPage_JobCard_props [] [] linked_job"

definition already_applied :: card_props where
  "already_applied = ChatPage_JobCard_props [] [linked_job] linked_job"

definition saved_props :: card_props where
  "saved_props = ChatPage_JobCard_props [linked_job] [] linked_job"

definition apply_then_confirm :: "(card_props \<times> card_event) list" where
  "apply_then_confirm = [(not_applied, ClickApply), (not_applied, ClickConfirmApply)]"

definition confirm_when_applied :: "(card_props \<times> card_event) list" where
  "confirm_when_applied = [(not_applied, ClickApply), (already_applied, ClickConfirmApply)]"

definition confirm_twice :: "(card_props \<times> card_event) list" where
  "confirm_twice =
     [(not_applied, ClickApply), (not_applied, ClickCard), (not_applied, ModalClickApply),
      (not_applied, ModalClickConfirmApply), (already_applied, ClickConfirmApply)]"

section \<open>Properties\<close>

subsection \<open>Strings and slices\<close>

lemma lit_eq_Nil [simp]: "lit s = [] \<longleftrightarrow> s = []"
  by (simp add: lit_def)



lemma slice_nonneg:
  "0 \<le> a \<Longrightarrow> a \<le> b \<Longrightarrow> js_slice xs a b = take (nat b - nat a) (drop (nat a) xs)"
  by (cases "a \<le> int (length xs)") (auto simp: js_slice_def Let_def min_def nat_diff_distrib)

lemma length_slice: "a \<le> b \<Longrightarrow> length (js_slice xs a b) \<le> nat (b - a)"
  by (auto simp: js_slice_def Let_def min_def max_def)

subsection \<open>Pagination\<close>

lemma totalPages_eq: "totalPages xs = int ((length xs + 2) div 3)"
proof -
  have "\<lceil>(of_nat (length xs) :: rat) / of_int 3\<rceil> = - ((- int (length xs)) div 3)"
    using ceiling_divide_eq_div [of "int (length xs)" 3, where ?'a = rat] by simp
  thus ?thesis by (simp add: totalPages_def jobsPerPage_def)
qed

lemma paginatedJobs_take_drop:
  "1 \<le> p \<Longrightarrow> paginatedJobs xs p = take 3 (drop (3 * nat (p - 1)) xs)"
  unfolding paginatedJobs_def jobsPerPage_def
  by (subst slice_nonneg) (auto simp: nat_mult_distrib nat_diff_distrib algebra_simps)

lemma concat_pages_take:
  "concat (map (paginatedJobs xs) [1..int k]) = take (3 * k) xs"
proof (induction k)
  case 0
  show ?case by simp
next
  case (Suc k)
  have "[1..int (Suc k)] = [1..int k] @ [int k + 1]"
    using upto_rec2 [of 1 "int k + 1"] by (simp add: add.commute)
  then show ?case using Suc
    apply (simp add: paginatedJobs_take_drop)
    by (metis add.commute mult.commute mult_Suc take_add)
qed

lemma length_paginatedJobs: "length (paginatedJobs xs p) \<le> 3"
  unfolding paginatedJobs_def jobsPerPage_def
  using length_slice [of "(p - 1) * 3" "p * 3" xs] by simp

text \<open>
  Claim C2. The rendered page is \<open>displayedJobs.slice((currentPage - 1) * 3, currentPage * 3)\<close>,
  with \<open>jobsPerPage\<close> fixed at 3 and \<open>totalPages\<close> the ceiling of the length over 3;
  no page holds more than 3 jobs, and the pages 1 to \<open>totalPages\<close>, concatenated in
  order, are exactly \<open>displayedJobs\<close>.
\<close>

theorem pagination_partitions_displayedJobs:
  "paginatedJobs jobs p =
      js_slice jobs ((p - 1) * 3) (p * 3)
   \<and> jobsPerPage = 3
   \<and> totalPages jobs = \<lceil>(of_nat (length jobs) :: rat) / 3\<rceil>
   \<and> length (paginatedJobs jobs p) \<le> 3
   \<and> concat (map (paginatedJobs jobs) [1..totalPages jobs]) = jobs"
proof -
  have "concat (map (paginatedJobs jobs) [1..totalPages jobs]) = jobs"
    unfolding totalPages_eq concat_pages_take by simp
  then show ?thesis
    by (simp add: length_paginatedJobs) (simp add: paginatedJobs_def totalPages_def jobsPerPage_def)
qed

subsection \<open>Conversion of job cards\<close>

text \<open>
  Claim C9, as amended. \<open>convertJobCardDataToJob\<close> copies \<open>job_id\<close>, \<open>job_title\<close>,
  \<open>employer_name\<close> and \<open>job_description\<close> unchanged into the id, title, company and
  description, and it puts the default \<open>'Full-time'\<close>, \<open>'Not specified'\<close> or
  \<open>'Not disclosed'\<close> for the role, location or salary exactly when the optional field
  is absent or is the empty string; a non-empty field is copied.
\<close>

theorem convertJobCardDataToJob_fields:
  "j_id (convertJobCardDataToJob jobData) = job_id jobData
   \<and> j_title (convertJobCardDataToJob jobData) = job_title jobData
   \<and> j_company (convertJobCardDataToJob jobData) = employer_name jobData
   \<and> j_description (convertJobCardDataToJob jobData) = job_description jobData
   \<and> j_role (convertJobCardDataToJob jobData) =
       (case job_employment_type jobData of
          None \<Rightarrow> lit ''Full-time''
        | Some s \<Rightarrow> if s = [] then lit ''Full-time'' else s)
   \<and> j_location (convertJobCardDataToJob jobData) =
       (case job_location jobData of
          None \<Rightarrow> lit ''Not specified''
        | Some s \<Rightarrow> if s = [] then lit ''Not specified'' else s)
   \<and> j_salary (convertJobCardDataToJob jobData) =
       (case job_salary jobData of
          None \<Rightarrow> lit ''Not disclosed''
        | Some s \<Rightarrow> if s = [] then lit ''Not disclosed'' else s)"
  by (simp add: convertJobCardDataToJob_def or_string_def)

text \<open>
  The claim as first stated, with the defaults only for absent fields, fails on a job
  card whose employment type, location and salary are present and empty: the role is
  \<open>'Full-time'\<close>, not the empty string of the field.
\<close>

theorem convertJobCardDataToJob_empty_field_counterexample:
  "job_employment_type blank_fields_card = Some []
   \<and> j_role (convertJobCardDataToJob blank_fields_card) = lit ''Full-time''
   \<and> j_role (convertJobCardDataToJob blank_fields_card) \<noteq>
       (case job_employment_type blank_fields_card of None \<Rightarrow> lit ''Full-time'' | Some s \<Rightarrow> s)"
  by (simp add: convertJobCardDataToJob_def or_string_def blank_fields_card_def)

subsection \<open>The fetch wrappers\<close>

lemmas api_defs = uploadResume_def confirmOnboarding_def createChat_def sendMessage_def
  getChatMessages_def getChatHistory_def deleteChatSession_def

lemma get_prop_non_null: "body \<noteq> JNull \<Longrightarrow> \<exists>d. get_prop body key = Inr d"
  by (cases body) simp_all

text \<open>
  Claim C3, as amended. For each of the seven wrappers and every response whose body
  parses as JSON: the wrapper returns the parsed body when \<open>response.ok\<close> is true,
  and it returns a value only then; otherwise, the body not being \<open>null\<close>, it throws
  an \<open>Error\<close> made from the body's \<open>detail\<close> field when that field is present and
  truthy, and from the wrapper's own fallback string when \<open>detail\<close> is absent or falsy.
\<close>

theorem api_client_response_mapping:
  assumes "(f, fallback) \<in> set api_functions"
    and "json response = Inr body"
  shows "(ok response \<longrightarrow> f response = Inr body)
    \<and> (\<not> ok response \<and> body \<noteq> JNull \<longrightarrow>
         (\<exists>detail. get_prop body (lit ''detail'') = Inr detail
            \<and> f response =
                Inl (Error (case detail of
                              None \<Rightarrow> JStr fallback
                            | Some v \<Rightarrow> if truthy v then v else JStr fallback))))
    \<and> ((\<exists>result. f response = Inr result) \<longleftrightarrow> ok response)"
proof -
  from assms(1) consider "f = uploadResume" "fallback = lit ''Failed to upload resume''"
    | "f = confirmOnboarding" "fallback = lit ''Failed to confirm onboarding details''"
    | "f = createChat" "fallback = lit ''Failed to create chat''"
    | "f = sendMessage" "fallback = lit ''Failed to send message''"
    | "f = getChatMessages" "fallback = lit ''Failed to get chat messages''"
    | "f = getChatHistory" "fallback = lit ''Failed to get chat history''"
    | "f = deleteChatSession" "fallback = lit ''Failed to delete chat session''"
    unfolding api_functions_def by auto
  then have m: "f response =
      (if \<not> ok response then
         (case get_prop body (lit ''detail'') of
            Inl e \<Rightarrow> Inl e
          | Inr detail \<Rightarrow> Inl (Error (or_value detail (JStr fallback))))
       else Inr body)"
    by cases (auto simp: api_defs assms(2))
  have "\<exists>detail. get_prop body (lit ''detail'') = Inr detail
            \<and> f response =
                Inl (Error (case detail of
                              None \<Rightarrow> JStr fallback
                            | Some v \<Rightarrow> if truthy v then v else JStr fallback))"
    if nok: "\<not> ok response" and nn: "body \<noteq> JNull"
  proof -
    obtain d where d: "get_prop body (lit ''detail'') = Inr d"
      using get_prop_non_null [OF nn] by blast
    with nok m show ?thesis
      by (simp add: or_value_def)
  qed
  moreover have "ok response \<longrightarrow> f response = Inr body"
    using m by simp
  moreover have "(\<exists>result. f response = Inr result) \<longleftrightarrow> ok response"
    using m by (auto split: sum.splits)
  ultimately show ?thesis by blast
qed

text \<open>\<open>sendMessage\<close> on a 404 whose body is \<open>{"detail": "Chat not found"}\<close>.\<close>

theorem api_client_response_mapping_witness:
  "sendMessage chat_not_found_response = Inl (Error (JStr (lit ''Chat not found'')))"
proof -
  have m: "(sendMessage, lit ''Failed to send message'') \<in> set api_functions"
    by (simp add: api_functions_def)
  have j: "json chat_not_found_response =
             Inr (JObj [(lit ''detail'', JStr (lit ''Chat not found''))])"
    by (simp add: chat_not_found_response_def)
  have o: "\<not> ok chat_not_found_response"
    by (simp add: chat_not_found_response_def)
  show ?thesis
    using api_client_response_mapping [OF m j] o by (auto simp: lit_def)
qed

text \<open>
  The claim as first stated fails on two responses. On an error whose \<open>detail\<close> is
  present and empty, the message is the fallback string and not the field. On a
  success whose body is not JSON text, \<open>response.ok\<close> is true and the wrapper does
  not return: the promise rejects with the parser's error.
\<close>

theorem api_client_counterexample:
  "\<not> ok empty_detail_response
   \<and> json empty_detail_response = Inr (JObj [(lit ''detail'', JStr [])])
   \<and> get_prop (JObj [(lit ''detail'', JStr [])]) (lit ''detail'') = Inr (Some (JStr []))
   \<and> sendMessage empty_detail_response = Inl (Error (JStr (lit ''Failed to send message'')))
   \<and> sendMessage empty_detail_response \<noteq> Inl (Error (JStr []))
   \<and> ok not_json_ok_response
   \<and> sendMessage not_json_ok_response = Inl SyntaxError"
  by (simp add: empty_detail_response_def not_json_ok_response_def sendMessage_def or_value_def)

subsection \<open>handleSendMessage\<close>

lemma start_passes:
  assumes "\<not> send_guard st (or_string text (message st))"
  shows "\<exists>chat chatId. currentChat st = Some chat \<and> actualChatId st = Some chatId \<and>
     handleSendMessage_start userEmail st text clk =
       (st\<lparr> isSending := True, message := [],
            currentChat := Some (chat\<lparr> c_messages := c_messages chat @
               [\<lparr> m_id = date_now clk, m_sender = User,
                      m_content = or_string text (message st), m_timestamp = new_date clk \<rparr>] \<rparr>) \<rparr>,
        [CallSendMessage userEmail chatId (or_string text (message st))
                     (case selectedJobId st of
                        None \<Rightarrow> None
                      | Some j \<Rightarrow> if j = [] then None else Some j)],
        Some \<lparr> sc_currentChat = chat, sc_actualChatId = chatId,
               sc_messageText = or_string text (message st),
               sc_updatedMessages = c_messages chat @
               [\<lparr> m_id = date_now clk, m_sender = User,
                      m_content = or_string text (message st), m_timestamp = new_date clk \<rparr>] \<rparr>)"
  using assms
  by (auto simp: handleSendMessage_start_def send_guard_def Let_def split: option.splits)

lemma start_blocked:
  "send_guard st (or_string text (message st)) \<Longrightarrow>
     handleSendMessage_start userEmail st text clk = (st, [], None)"
  by (simp add: handleSendMessage_start_def)

lemma settle_failure:
  "handleSendMessage_settle sc (Inl error) clk st =
     (st\<lparr> currentChat := Some (sc_currentChat sc), isSending := False \<rparr>,
      [ConsoleError error, ToastError (lit ''Failed to send message. Please try again.'')])"
  by (simp add: handleSendMessage_settle_def)

lemma settle_success_selected:
  "selectedJobId (fst (handleSendMessage_settle sc (Inr response) clk st)) = None"
  by (simp add: handleSendMessage_settle_def Let_def)


lemma in_render_latest:
  "handleSendMessage_in_render userEmail st st text clk
     = handleSendMessage_start userEmail st text clk"
  by (simp add: handleSendMessage_in_render_def handleSendMessage_start_def)





text \<open>
  Claim C1. For every state of the page and every message text that passes the guard
  of \<open>handleSendMessage\<close> (so the text is not blank), the handler first appends the
  user's message to the messages of the current chat; if the request then fails, the
  handler sets the current chat back to the chat as it was before that append, with
  exactly the messages it had, whatever the state has become when the request fails.
\<close>

theorem failed_send_restores_messages:
  assumes "\<not> send_guard st (or_string text (message st))"
  shows "\<exists>chat userMessage st1 effs sc.
           currentChat st = Some chat
         \<and> handleSendMessage_start userEmail st text clk = (st1, effs, Some sc)
         \<and> currentChat st1 = Some (chat\<lparr> c_messages := c_messages chat @ [userMessage] \<rparr>)
         \<and> (\<forall>st'. currentChat (fst (handleSendMessage_settle sc (Inl error) clk' st')) = Some chat)
         \<and> currentChat (fst (handleSendMessage userEmail st text clk (Inl error) clk')) = Some chat"
proof -
  from start_passes [OF assms, of userEmail clk]
  obtain chat chatId st1 effs sc where
    c: "currentChat st = Some chat" and
    s: "handleSendMessage_start userEmail st text clk = (st1, effs, Some sc)" and
    s1: "currentChat st1 = Some (chat\<lparr> c_messages := c_messages chat @
               [\<lparr> m_id = date_now clk, m_sender = User,
                      m_content = or_string text (message st), m_timestamp = new_date clk \<rparr>] \<rparr>)" and
    sc: "sc_currentChat sc = chat"
    by fastforce
  have "\<forall>st'. currentChat (fst (handleSendMessage_settle sc (Inl error) clk' st')) = Some chat"
    by (simp add: settle_failure sc)
  moreover have "currentChat (fst (handleSendMessage userEmail st text clk (Inl error) clk')) = Some chat"
    by (simp add: handleSendMessage_def s settle_failure sc)
  ultimately show ?thesis using c s s1 by blast
qed

text \<open>A send of \<open>hi\<close> in the loaded chat, with a request that fails.\<close>

theorem failed_send_restores_messages_witness:
  "\<not> send_guard ready_page (or_string (Some (lit ''hi'')) (message ready_page))
   \<and> currentChat (fst (handleSendMessage (lit ''a@b.c'') ready_page (Some (lit ''hi'')) (tick 1000)
                          (Inl TypeError) (tick 2000))) = Some demo_chat"
proof -
  have g: "\<not> send_guard ready_page (or_string (Some (lit ''hi'')) (message ready_page))"
    by (simp add: send_guard_def ready_page_def initial_ChatPage_def or_string_def trim_def
        lit_def isWhiteSpace_def)
  have c: "currentChat ready_page = Some demo_chat"
    by (simp add: ready_page_def)
  show ?thesis
    using g c failed_send_restores_messages [OF g, of "lit ''a@b.c''" "tick 1000" TypeError "tick 2000"]
    by auto
qed

text \<open>
  Claim C10. A failed send leaves the job list state as it was: \<open>displayedJobs\<close>,
  \<open>showJobs\<close>, \<open>currentPage\<close> and \<open>selectedJobId\<close> keep the values they had
  before the send, and \<open>updateChat\<close> is not called; \<open>selectedJobId\<close> is cleared by
  a send that succeeds. The failure branch alone changes none of the four in the state
  it finds.
\<close>

theorem failed_send_frame:
  "displayedJobs (fst (handleSendMessage userEmail st text clk (Inl error) clk')) = displayedJobs st
   \<and> showJobs (fst (handleSendMessage userEmail st text clk (Inl error) clk')) = showJobs st
   \<and> currentPage (fst (handleSendMessage userEmail st text clk (Inl error) clk')) = currentPage st
   \<and> selectedJobId (fst (handleSendMessage userEmail st text clk (Inl error) clk')) = selectedJobId st
   \<and> (\<forall>chatId messages title.
         CallUpdateChat chatId messages title
           \<notin> set (snd (handleSendMessage userEmail st text clk (Inl error) clk')))
   \<and> (\<forall>sc st'.
         displayedJobs (fst (handleSendMessage_settle sc (Inl error) clk' st')) = displayedJobs st'
         \<and> showJobs (fst (handleSendMessage_settle sc (Inl error) clk' st')) = showJobs st'
         \<and> currentPage (fst (handleSendMessage_settle sc (Inl error) clk' st')) = currentPage st'
         \<and> selectedJobId (fst (handleSendMessage_settle sc (Inl error) clk' st')) = selectedJobId st'
         \<and> (\<forall>chatId messages title.
               CallUpdateChat chatId messages title
                 \<notin> set (snd (handleSendMessage_settle sc (Inl error) clk' st'))))
   \<and> (\<not> send_guard st (or_string text (message st)) \<longrightarrow>
         selectedJobId (fst (handleSendMessage userEmail st text clk (Inr response) clk')) = None)"
proof (cases "send_guard st (or_string text (message st))")
  case True
  then show ?thesis
    by (simp add: handleSendMessage_def start_blocked settle_failure)
next
  case False
  from start_passes [OF False, of userEmail clk]
  obtain chat chatId where
    s: "handleSendMessage_start userEmail st text clk =
       (st\<lparr> isSending := True, message := [],
            currentChat := Some (chat\<lparr> c_messages := c_messages chat @
               [\<lparr> m_id = date_now clk, m_sender = User,
                      m_content = or_string text (message st), m_timestamp = new_date clk \<rparr>] \<rparr>) \<rparr>,
        [CallSendMessage userEmail chatId (or_string text (message st))
                     (case selectedJobId st of
                        None \<Rightarrow> None
                      | Some j \<Rightarrow> if j = [] then None else Some j)],
        Some \<lparr> sc_currentChat = chat, sc_actualChatId = chatId,
               sc_messageText = or_string text (message st),
               sc_updatedMessages = c_messages chat @
               [\<lparr> m_id = date_now clk, m_sender = User,
                      m_content = or_string text (message st), m_timestamp = new_date clk \<rparr>] \<rparr>)"
    by blast
  show ?thesis
    by (simp add: handleSendMessage_def s settle_failure settle_success_selected case_prod_beta)
qed

text \<open>A send with a job selected: the selection survives a failure and not a success.\<close>

theorem failed_send_frame_witness:
  "\<not> send_guard selected_page (or_string (Some (lit ''hi'')) (message selected_page))
   \<and> selectedJobId (fst (handleSendMessage (lit ''a@b.c'') selected_page (Some (lit ''hi''))
                           (tick 1000) (Inl TypeError) (tick 2000))) = Some (lit ''j1'')
   \<and> selectedJobId (fst (handleSendMessage (lit ''a@b.c'') selected_page (Some (lit ''hi''))
                           (tick 1000) (Inr plain_reply) (tick 2000))) = None"
proof -
  have g: "\<not> send_guard selected_page (or_string (Some (lit ''hi'')) (message selected_page))"
    by (simp add: send_guard_def selected_page_def ready_page_def initial_ChatPage_def
        or_string_def trim_def lit_def isWhiteSpace_def)
  have s: "selectedJobId selected_page = Some (lit ''j1'')"
    by (simp add: selected_page_def)
  show ?thesis
    using g s failed_send_frame [of "lit ''a@b.c''" selected_page "Some (lit ''hi'')" "tick 1000"
        TypeError "tick 2000" plain_reply]
    by simp
qed

subsection \<open>Chat turns in sequence\<close>






















subsection \<open>The current page\<close>











subsection \<open>The modals\<close>

text \<open>
  Claim C7. For every job and whatever the other props are, JobDetailModal and the
  two ApplyConfirmationModal components return \<open>null\<close> exactly when \<open>isOpen\<close> is
  false, and when \<open>isOpen\<close> is true they render their content through a portal into
  the modal root.
\<close>

theorem modals_render_iff_open:
  "(JobDetailModal job isOpen saved applied showConfirmation has_element = None \<longleftrightarrow> \<not> isOpen)
   \<and> (isOpen \<longrightarrow>
        (\<exists>content. JobDetailModal job isOpen saved applied showConfirmation has_element
                     = Some (Portal content (modalRoot has_element))))
   \<and> (JobDetailModal_ApplyConfirmationModal isOpen job has_element = None \<longleftrightarrow> \<not> isOpen)
   \<and> (isOpen \<longrightarrow>
        JobDetailModal_ApplyConfirmationModal isOpen job has_element
          = Some (Portal \<lparr> cc_title = j_title job, cc_company = j_company job \<rparr>
                    (modalRoot has_element)))
   \<and> (JobCard_ApplyConfirmationModal isOpen job has_element = None \<longleftrightarrow> \<not> isOpen)
   \<and> (isOpen \<longrightarrow>
        JobCard_ApplyConfirmationModal isOpen job has_element
          = Some (Portal \<lparr> cc_title = j_title job, cc_company = j_company job \<rparr>
                    (modalRoot has_element)))"
  by (simp add: JobDetailModal_def JobDetailModal_ApplyConfirmationModal_def
      JobCard_ApplyConfirmationModal_def)

text \<open>The modals of the job without a link, open and closed.\<close>

theorem modals_render_iff_open_witness:
  "JobCard_ApplyConfirmationModal True demo_job False \<noteq> None
   \<and> JobCard_ApplyConfirmationModal False demo_job False = None
   \<and> JobDetailModal_ApplyConfirmationModal True demo_job False \<noteq> None
   \<and> JobDetailModal_ApplyConfirmationModal False demo_job False = None
   \<and> JobDetailModal demo_job True False False False False \<noteq> None
   \<and> JobDetailModal demo_job False False False False False = None"
  using modals_render_iff_open [of demo_job True False False False False]
    modals_render_iff_open [of demo_job False False False False False]
  by simp

subsection \<open>Saving\<close>

lemma save_toggle_callbacks_supplied:
  "filter is_prop_call (JobCard_handleSaveToggle job saved True True)
     = [if saved then CallOnUnsave job else CallOnSave job]
   \<and> filter is_prop_call (JobDetailModal_handleSaveToggle job saved True True)
     = [if saved then CallOnUnsave job else CallOnSave job]"
  by (simp add: JobCard_handleSaveToggle_def JobDetailModal_handleSaveToggle_def)

text \<open>
  Claim C8. The save toggle should call exactly one of the two callbacks,
  \<open>onUnsave(job)\<close> when \<open>isSaved\<close> is true and \<open>onSave(job)\<close> when it is false.
  On the cards of ChatPage it does not: ChatPage passes no \<open>onUnsave\<close>, so for a
  saved job \<open>handleSaveToggle\<close> of JobCard stops the propagation of the click and
  throws a TypeError, \<open>handleSaveToggle\<close> of JobDetailModal throws a TypeError, and
  neither calls a callback. For a job that is not saved both call \<open>onSave(job)\<close>.
\<close>

theorem save_toggle_without_onUnsave:
  "isSaved (ChatPage_JobCard_props [job] appliedJobs job)
   \<and> \<not> onUnsave_given (ChatPage_JobCard_props [job] appliedJobs job)
   \<and> onSave_given (ChatPage_JobCard_props [job] appliedJobs job)
   \<and> JobCard_handleSaveToggle job True True False = [StopPropagation, Throws TypeError]
   \<and> filter is_prop_call (JobCard_handleSaveToggle job True True False) = []
   \<and> JobDetailModal_handleSaveToggle job True True False = [Throws TypeError]
   \<and> filter is_prop_call (JobDetailModal_handleSaveToggle job True True False) = []
   \<and> filter is_prop_call (JobCard_handleSaveToggle job False True False) = [CallOnSave job]
   \<and> filter is_prop_call (JobDetailModal_handleSaveToggle job False True False) = [CallOnSave job]
   \<and> card_step linked_job has_element initial_JobCard (saved_props, ClickSaveToggle)
       = Some (initial_JobCard, [StopPropagation, Throws TypeError])"
  by (simp add: ChatPage_JobCard_props_def JobCard_handleSaveToggle_def
      JobDetailModal_handleSaveToggle_def saved_props_def)

subsection \<open>Applying\<close>

lemma card_step_effects:
  assumes "card_step job has_element t (props, ev) = Some (t1, effs)"
  shows "filter (\<lambda>e. e = CallOnApply job) effs = (if is_confirm ev then [CallOnApply job] else [])
       \<and> (\<forall>j. CallOnApply j \<in> set effs \<longrightarrow> j = job)"
proof (cases ev)
  case ClickCard
  with assms show ?thesis by (auto simp: is_confirm_def)
next
  case ClickSaveToggle
  with assms show ?thesis
    by (auto simp: is_confirm_def JobCard_handleSaveToggle_def split: if_splits)
next
  case ClickApply
  with assms show ?thesis
    by (auto simp: is_confirm_def JobCard_handleApply_def open_apply_link_def
        split: if_splits option.splits)
next
  case ClickChoose
  with assms show ?thesis by (auto simp: is_confirm_def JobCard_handleChoose_def)
next
  case ClickConfirmApply
  with assms show ?thesis
    by (auto simp: is_confirm_def JobCard_handleConfirmApply_def split: if_splits)
next
  case ClickCancelApply
  with assms show ?thesis by (auto simp: is_confirm_def split: if_splits)
next
  case ModalClickClose
  with assms show ?thesis by (auto simp: is_confirm_def from_modal_def split: if_splits)
next
  case ModalClickSaveToggle
  with assms show ?thesis
    by (auto simp: is_confirm_def from_modal_def JobDetailModal_handleSaveToggle_def
        split: if_splits)
next
  case ModalClickApply
  with assms show ?thesis
    by (auto simp: is_confirm_def from_modal_def JobDetailModal_handleApplyClick_def
        open_apply_link_def split: if_splits option.splits)
next
  case ModalClickConfirmApply
  with assms show ?thesis
    by (auto simp: is_confirm_def from_modal_def JobDetailModal_handleConfirmApply_def
        split: if_splits)
next
  case ModalClickCancelApply
  with assms show ?thesis by (auto simp: is_confirm_def from_modal_def split: if_splits)
qed

lemma card_step_flags:
  assumes "card_step job has_element t (props, ev) = Some (t1, effs)"
  shows "(ev = ClickConfirmApply \<longrightarrow> showApplyConfirmation (card t))
       \<and> (ev = ModalClickConfirmApply \<longrightarrow> showDetailModal (card t) \<and> modal t)
       \<and> (showApplyConfirmation (card t1) \<longrightarrow>
            showApplyConfirmation (card t) \<or> (ev = ClickApply \<and> \<not> isApplied props))
       \<and> (modal t1 \<longrightarrow> modal t \<or> (ev = ModalClickApply \<and> \<not> isApplied props))"
proof (cases ev)
  case ClickCard
  with assms show ?thesis by (auto simp: JobCard_handleCardClick_def)
next
  case ClickSaveToggle
  with assms show ?thesis by auto
next
  case ClickApply
  with assms show ?thesis by (auto simp: JobCard_handleApply_def split: if_splits)
next
  case ClickChoose
  with assms show ?thesis by auto
next
  case ClickConfirmApply
  with assms show ?thesis
    by (auto simp: JobCard_handleConfirmApply_def JobCard_ApplyConfirmationModal_def
        split: if_splits)
next
  case ClickCancelApply
  with assms show ?thesis by (auto simp: JobCard_handleCancelApply_def split: if_splits)
next
  case ModalClickClose
  with assms show ?thesis by (auto simp: from_modal_def split: if_splits)
next
  case ModalClickSaveToggle
  with assms show ?thesis
    by (auto simp: from_modal_def JobDetailModal_handleSaveToggle_def split: if_splits)
next
  case ModalClickApply
  with assms show ?thesis
    by (auto simp: from_modal_def JobDetailModal_handleApplyClick_def open_apply_link_def
        split: if_splits option.splits)
next
  case ModalClickConfirmApply
  with assms show ?thesis
    by (auto simp: from_modal_def JobDetailModal_handleConfirmApply_def
        modal_confirmation_rendered_def JobDetailModal_def
        JobDetailModal_ApplyConfirmationModal_def split: if_splits)
next
  case ModalClickCancelApply
  with assms show ?thesis
    by (auto simp: from_modal_def JobDetailModal_handleCancelApply_def split: if_splits)
qed

lemma card_run_Cons:
  assumes "card_run job has_element t (e # es) = Some (t', effs)"
  obtains t1 effs1 effs2 where "card_step job has_element t e = Some (t1, effs1)"
    and "card_run job has_element t1 es = Some (t', effs2)" and "effs = effs1 @ effs2"
  using assms by (auto split: option.splits)

lemma card_run_calls:
  assumes "card_run job has_element t evs = Some (t', effs)"
  shows "length (filter (\<lambda>e. e = CallOnApply job) effs)
           = length (filter (\<lambda>e. is_confirm (snd e)) evs)
       \<and> (\<forall>j. CallOnApply j \<in> set effs \<longrightarrow> j = job)"
  using assms
proof (induction evs arbitrary: t effs)
  case Nil
  then show ?case by simp
next
  case (Cons e es)
  obtain props ev where e: "e = (props, ev)" by (cases e)
  from Cons.prems obtain t1 effs1 effs2 where
    s: "card_step job has_element t (props, ev) = Some (t1, effs1)" and
    r: "card_run job has_element t1 es = Some (t', effs2)" and
    effs: "effs = effs1 @ effs2"
    unfolding e by (rule card_run_Cons)
  from card_step_effects [OF s] Cons.IH [OF r] show ?case
    unfolding effs e by auto
qed

lemma card_run_confirm_card:
  assumes "card_run job has_element t evs = Some (t', effs)"
    and "i < length evs" and "snd (evs ! i) = ClickConfirmApply"
  shows "showApplyConfirmation (card t)
       \<or> (\<exists>k<i. snd (evs ! k) = ClickApply \<and> \<not> isApplied (fst (evs ! k)))"
  using assms
proof (induction evs arbitrary: t effs i)
  case Nil
  then show ?case by simp
next
  case (Cons e es)
  obtain props ev where e: "e = (props, ev)" by (cases e)
  from Cons.prems(1) obtain t1 effs1 effs2 where
    s: "card_step job has_element t (props, ev) = Some (t1, effs1)" and
    r: "card_run job has_element t1 es = Some (t', effs2)"
    unfolding e by (rule card_run_Cons)
  note f = card_step_flags [OF s]
  show ?case
  proof (cases i)
    case 0
    with Cons.prems(3) e have "ev = ClickConfirmApply" by simp
    with f show ?thesis by blast
  next
    case (Suc i')
    with Cons.prems have "i' < length es" "snd (es ! i') = ClickConfirmApply" by simp_all
    from Cons.IH [OF r this] consider "showApplyConfirmation (card t1)"
      | k where "k < i'" "snd (es ! k) = ClickApply" "\<not> isApplied (fst (es ! k))"
      by blast
    then show ?thesis
    proof cases
      case 1
      with f consider "showApplyConfirmation (card t)" | "ev = ClickApply" "\<not> isApplied props"
        by blast
      then show ?thesis
      proof cases
        case 1
        then show ?thesis by blast
      next
        case 2
        then have "0 < i \<and> snd ((e # es) ! 0) = ClickApply \<and> \<not> isApplied (fst ((e # es) ! 0))"
          using Suc e by simp
        then show ?thesis by blast
      qed
    next
      case 2
      then have "Suc k < i \<and> snd ((e # es) ! Suc k) = ClickApply
          \<and> \<not> isApplied (fst ((e # es) ! Suc k))"
        using Suc by simp
      then show ?thesis by blast
    qed
  qed
qed

lemma card_run_confirm_modal:
  assumes "card_run job has_element t evs = Some (t', effs)"
    and "i < length evs" and "snd (evs ! i) = ModalClickConfirmApply"
  shows "modal t
       \<or> (\<exists>k<i. snd (evs ! k) = ModalClickApply \<and> \<not> isApplied (fst (evs ! k)))"
  using assms
proof (induction evs arbitrary: t effs i)
  case Nil
  then show ?case by simp
next
  case (Cons e es)
  obtain props ev where e: "e = (props, ev)" by (cases e)
  from Cons.prems(1) obtain t1 effs1 effs2 where
    s: "card_step job has_element t (props, ev) = Some (t1, effs1)" and
    r: "card_run job has_element t1 es = Some (t', effs2)"
    unfolding e by (rule card_run_Cons)
  note f = card_step_flags [OF s]
  show ?case
  proof (cases i)
    case 0
    with Cons.prems(3) e have "ev = ModalClickConfirmApply" by simp
    with f show ?thesis by blast
  next
    case (Suc i')
    with Cons.prems have "i' < length es" "snd (es ! i') = ModalClickConfirmApply" by simp_all
    from Cons.IH [OF r this] consider "modal t1"
      | k where "k < i'" "snd (es ! k) = ModalClickApply" "\<not> isApplied (fst (es ! k))"
      by blast
    then show ?thesis
    proof cases
      case 1
      with f consider "modal t" | "ev = ModalClickApply" "\<not> isApplied props"
        by blast
      then show ?thesis
      proof cases
        case 1
        then show ?thesis by blast
      next
        case 2
        then have "0 < i \<and> snd ((e # es) ! 0) = ModalClickApply
            \<and> \<not> isApplied (fst ((e # es) ! 0))"
          using Suc e by simp
        then show ?thesis by blast
      qed
    next
      case 2
      then have "Suc k < i \<and> snd ((e # es) ! Suc k) = ModalClickApply
          \<and> \<not> isApplied (fst ((e # es) ! Suc k))"
        using Suc by simp
      then show ?thesis by blast
    qed
  qed
qed

text \<open>
  Claim C6, as amended. For every job, \<open>onApply\<close> is called only by a confirm
  handler, once for each click on the confirm button of an apply confirmation modal,
  and that modal was opened by an earlier Apply click of the same component made
  while \<open>isApplied\<close> was false; the confirm handlers do not read \<open>isApplied\<close>.
  When \<open>isApplied\<close> is true the Apply action opens no link, shows no confirmation
  and does not call \<open>onApply\<close>. When \<open>isApplied\<close> is false the click opens the
  apply link in a new tab, if the job has one, and shows the confirmation modal, and
  does not call \<open>onApply\<close>.
\<close>

theorem onApply_only_from_confirmation:
  "(applied \<longrightarrow>
      fst (JobCard_handleApply job applied st) = st
      \<and> (\<forall>link. WindowOpen link \<notin> set (snd (JobCard_handleApply job applied st)))
      \<and> JobDetailModal_handleApplyClick job applied shown = (shown, []))
   \<and> (\<not> applied \<longrightarrow>
      JobCard_handleApply job applied st
        = (st\<lparr> showApplyConfirmation := True \<rparr>,
           StopPropagation #
           (case j_applyLink job of
              None \<Rightarrow> []
            | Some link \<Rightarrow> if link = [] then [] else [WindowOpen link]))
      \<and> JobDetailModal_handleApplyClick job applied shown
        = (True,
           (case j_applyLink job of
              None \<Rightarrow> []
            | Some link \<Rightarrow> if link = [] then [] else [WindowOpen link])))
   \<and> (\<forall>j. CallOnApply j \<notin> set (snd (JobCard_handleApply job applied st))
          \<and> CallOnApply j \<notin> set (snd (JobDetailModal_handleApplyClick job applied shown)))
   \<and> JobCard_handleConfirmApply job st
       = (st\<lparr> showApplyConfirmation := False \<rparr>, [CallOnApply job, ToastApplicationRecorded job])
   \<and> JobDetailModal_handleConfirmApply job shown = (False, [CallOnApply job])
   \<and> (\<forall>t props ev t1 effs.
         card_step job has_element t (props, ev) = Some (t1, effs) \<longrightarrow>
           filter (\<lambda>e. e = CallOnApply job) effs
             = (if ev = ClickConfirmApply \<or> ev = ModalClickConfirmApply
                then [CallOnApply job] else [])
           \<and> (\<forall>j. CallOnApply j \<in> set effs \<longrightarrow> j = job)
           \<and> (ev = ClickConfirmApply \<longrightarrow> showApplyConfirmation (card t))
           \<and> (ev = ModalClickConfirmApply \<longrightarrow> showDetailModal (card t) \<and> modal t))
   \<and> (\<forall>evs t' effs.
         card_run job has_element initial_JobCard evs = Some (t', effs) \<longrightarrow>
           length (filter (\<lambda>e. e = CallOnApply job) effs)
             = length (filter (\<lambda>e. snd e = ClickConfirmApply \<or> snd e = ModalClickConfirmApply)
                         evs)
           \<and> (\<forall>j. CallOnApply j \<in> set effs \<longrightarrow> j = job)
           \<and> (\<forall>i<length evs. snd (evs ! i) = ClickConfirmApply \<longrightarrow>
                 (\<exists>k<i. snd (evs ! k) = ClickApply \<and> \<not> isApplied (fst (evs ! k))))
           \<and> (\<forall>i<length evs. snd (evs ! i) = ModalClickConfirmApply \<longrightarrow>
                 (\<exists>k<i. snd (evs ! k) = ModalClickApply \<and> \<not> isApplied (fst (evs ! k)))))"
proof -
  have a: "applied \<longrightarrow>
      fst (JobCard_handleApply job applied st) = st
      \<and> (\<forall>link. WindowOpen link \<notin> set (snd (JobCard_handleApply job applied st)))
      \<and> JobDetailModal_handleApplyClick job applied shown = (shown, [])"
    by (simp add: JobCard_handleApply_def JobDetailModal_handleApplyClick_def)
  have b: "\<not> applied \<longrightarrow>
      JobCard_handleApply job applied st
        = (st\<lparr> showApplyConfirmation := True \<rparr>,
           StopPropagation #
           (case j_applyLink job of
              None \<Rightarrow> []
            | Some link \<Rightarrow> if link = [] then [] else [WindowOpen link]))
      \<and> JobDetailModal_handleApplyClick job applied shown
        = (True,
           (case j_applyLink job of
              None \<Rightarrow> []
            | Some link \<Rightarrow> if link = [] then [] else [WindowOpen link]))"
    by (simp add: JobCard_handleApply_def JobDetailModal_handleApplyClick_def open_apply_link_def)
  have c: "\<forall>j. CallOnApply j \<notin> set (snd (JobCard_handleApply job applied st))
          \<and> CallOnApply j \<notin> set (snd (JobDetailModal_handleApplyClick job applied shown))"
    by (simp add: JobCard_handleApply_def JobDetailModal_handleApplyClick_def open_apply_link_def
        split: option.splits)
  have d: "JobCard_handleConfirmApply job st
       = (st\<lparr> showApplyConfirmation := False \<rparr>, [CallOnApply job, ToastApplicationRecorded job])"
    "JobDetailModal_handleConfirmApply job shown = (False, [CallOnApply job])"
    by (simp_all add: JobCard_handleConfirmApply_def JobDetailModal_handleConfirmApply_def)
  have e: "\<forall>t props ev t1 effs.
         card_step job has_element t (props, ev) = Some (t1, effs) \<longrightarrow>
           filter (\<lambda>e. e = CallOnApply job) effs
             = (if ev = ClickConfirmApply \<or> ev = ModalClickConfirmApply
                then [CallOnApply job] else [])
           \<and> (\<forall>j. CallOnApply j \<in> set effs \<longrightarrow> j = job)
           \<and> (ev = ClickConfirmApply \<longrightarrow> showApplyConfirmation (card t))
           \<and> (ev = ModalClickConfirmApply \<longrightarrow> showDetailModal (card t) \<and> modal t)"
  proof (intro allI impI)
    fix t props ev t1 effs
    assume s: "card_step job has_element t (props, ev) = Some (t1, effs)"
    from card_step_effects [OF s] card_step_flags [OF s]
    show "filter (\<lambda>e. e = CallOnApply job) effs
             = (if ev = ClickConfirmApply \<or> ev = ModalClickConfirmApply
                then [CallOnApply job] else [])
           \<and> (\<forall>j. CallOnApply j \<in> set effs \<longrightarrow> j = job)
           \<and> (ev = ClickConfirmApply \<longrightarrow> showApplyConfirmation (card t))
           \<and> (ev = ModalClickConfirmApply \<longrightarrow> showDetailModal (card t) \<and> modal t)"
      unfolding is_confirm_def by simp
  qed
  have f: "length (filter (\<lambda>e. e = CallOnApply job) effs)
             = length (filter (\<lambda>e. snd e = ClickConfirmApply \<or> snd e = ModalClickConfirmApply)
                         evs)
           \<and> (\<forall>j. CallOnApply j \<in> set effs \<longrightarrow> j = job)
           \<and> (\<forall>i<length evs. snd (evs ! i) = ClickConfirmApply \<longrightarrow>
                 (\<exists>k<i. snd (evs ! k) = ClickApply \<and> \<not> isApplied (fst (evs ! k))))
           \<and> (\<forall>i<length evs. snd (evs ! i) = ModalClickConfirmApply \<longrightarrow>
                 (\<exists>k<i. snd (evs ! k) = ModalClickApply \<and> \<not> isApplied (fst (evs ! k))))"
    if r: "card_run job has_element initial_JobCard evs = Some (t', effs)" for evs t' effs
  proof -
    have i: "\<not> showApplyConfirmation (card initial_JobCard)" "\<not> modal initial_JobCard"
      by (simp_all add: initial_JobCard_def)
    from card_run_calls [OF r] have
      "length (filter (\<lambda>e. e = CallOnApply job) effs)
         = length (filter (\<lambda>e. snd e = ClickConfirmApply \<or> snd e = ModalClickConfirmApply) evs)"
      "\<forall>j. CallOnApply j \<in> set effs \<longrightarrow> j = job"
      unfolding is_confirm_def by blast+
    moreover have "\<forall>i<length evs. snd (evs ! i) = ClickConfirmApply \<longrightarrow>
                 (\<exists>k<i. snd (evs ! k) = ClickApply \<and> \<not> isApplied (fst (evs ! k)))"
      using card_run_confirm_card [OF r] i(1) by blast
    moreover have "\<forall>i<length evs. snd (evs ! i) = ModalClickConfirmApply \<longrightarrow>
                 (\<exists>k<i. snd (evs ! k) = ModalClickApply \<and> \<not> isApplied (fst (evs ! k)))"
      using card_run_confirm_modal [OF r] i(2) by blast
    ultimately show ?thesis by (intro conjI)
  qed
  have g: "\<forall>evs t' effs.
         card_run job has_element initial_JobCard evs = Some (t', effs) \<longrightarrow>
           length (filter (\<lambda>e. e = CallOnApply job) effs)
             = length (filter (\<lambda>e. snd e = ClickConfirmApply \<or> snd e = ModalClickConfirmApply)
                         evs)
           \<and> (\<forall>j. CallOnApply j \<in> set effs \<longrightarrow> j = job)
           \<and> (\<forall>i<length evs. snd (evs ! i) = ClickConfirmApply \<longrightarrow>
                 (\<exists>k<i. snd (evs ! k) = ClickApply \<and> \<not> isApplied (fst (evs ! k))))
           \<and> (\<forall>i<length evs. snd (evs ! i) = ModalClickConfirmApply \<longrightarrow>
                 (\<exists>k<i. snd (evs ! k) = ModalClickApply \<and> \<not> isApplied (fst (evs ! k))))"
    by (intro allI impI) (rule f)
  show ?thesis
    by (rule conjI [OF a conjI [OF b conjI [OF c conjI [OF d(1) conjI [OF d(2) conjI [OF e g]]]]]])
qed

text \<open>
  Apply and confirm on the card of a job with an apply link that is not applied to,
  and the Apply action once it is.
\<close>

theorem onApply_only_from_confirmation_witness:
  "card_run linked_job False initial_JobCard apply_then_confirm
     = Some (initial_JobCard,
             [StopPropagation, WindowOpen (lit ''https://jobs.example/apply''),
              CallOnApply linked_job, ToastApplicationRecorded linked_job])
   \<and> snd (apply_then_confirm ! 1) = ClickConfirmApply
   \<and> snd (apply_then_confirm ! 0) = ClickApply
   \<and> \<not> isApplied (fst (apply_then_confirm ! 0))
   \<and> isApplied already_applied
   \<and> JobCard_handleApply linked_job (isApplied already_applied) (card initial_JobCard)
       = (card initial_JobCard,
          [StopPropagation, ToastInfo (lit ''You already applied to this job'')])
   \<and> JobDetailModal_handleApplyClick linked_job (isApplied already_applied) False = (False, [])
   \<and> JobCard_handleApply linked_job (isApplied not_applied) (card initial_JobCard)
       = ((card initial_JobCard)\<lparr> showApplyConfirmation := True \<rparr>,
          [StopPropagation, WindowOpen (lit ''https://jobs.example/apply'')])"
proof -
  have r: "card_run linked_job False initial_JobCard apply_then_confirm
     = Some (initial_JobCard,
             [StopPropagation, WindowOpen (lit ''https://jobs.example/apply''),
              CallOnApply linked_job, ToastApplicationRecorded linked_job])"
    by (simp add: apply_then_confirm_def initial_JobCard_def not_applied_def
        ChatPage_JobCard_props_def JobCard_handleApply_def JobCard_handleConfirmApply_def
        JobCard_ApplyConfirmationModal_def open_apply_link_def linked_job_def)
  have n: "\<not> isApplied not_applied" and a: "isApplied already_applied"
    by (simp_all add: not_applied_def already_applied_def ChatPage_JobCard_props_def)
  have l: "j_applyLink linked_job = Some (lit ''https://jobs.example/apply'')"
    by (simp add: linked_job_def)
  have e: "snd (apply_then_confirm ! 1) = ClickConfirmApply" "length apply_then_confirm = 2"
    "snd (apply_then_confirm ! 0) = ClickApply" "fst (apply_then_confirm ! 0) = not_applied"
    by (simp_all add: apply_then_confirm_def)
  note t = onApply_only_from_confirmation
    [where job = linked_job and st = "card initial_JobCard" and shown = False
       and has_element = False]
  note u = t [where applied = "isApplied not_applied", THEN conjunct2, THEN conjunct2,
      THEN conjunct2, THEN conjunct2, THEN conjunct2, THEN conjunct2, rule_format, OF r]
  from u [THEN conjunct2, THEN conjunct2, THEN conjunct1, rule_format, of 1] e
  have "\<exists>k<1. snd (apply_then_confirm ! k) = ClickApply
          \<and> \<not> isApplied (fst (apply_then_confirm ! k))"
    by simp
  then have k: "\<not> isApplied (fst (apply_then_confirm ! 0))"
    by simp
  from t [where applied = "isApplied already_applied", THEN conjunct1] a
  have y: "fst (JobCard_handleApply linked_job (isApplied already_applied) (card initial_JobCard))
             = card initial_JobCard"
    "JobDetailModal_handleApplyClick linked_job (isApplied already_applied) False = (False, [])"
    by blast+
  from t [where applied = "isApplied not_applied", THEN conjunct2, THEN conjunct1] n l
  have z: "JobCard_handleApply linked_job (isApplied not_applied) (card initial_JobCard)
       = ((card initial_JobCard)\<lparr> showApplyConfirmation := True \<rparr>,
          [StopPropagation, WindowOpen (lit ''https://jobs.example/apply'')])"
    by (simp add: lit_def)
  have "JobCard_handleApply linked_job (isApplied already_applied) (card initial_JobCard)
       = (card initial_JobCard,
          [StopPropagation, ToastInfo (lit ''You already applied to this job'')])"
    using y(1) a by (simp add: JobCard_handleApply_def)
  with r e k a y z show ?thesis by simp
qed

text \<open>
  The claim as first stated, with \<open>onApply\<close> called only when \<open>isApplied\<close> is false,
  fails on two runs of a card. In the first the job becomes applied to between the
  Apply click and the confirmation. In the second the user starts an application on
  the card, makes and confirms one in the detail modal, whereupon \<open>isApplied\<close> is
  true, and then confirms on the card: \<open>onApply\<close> is called a second time, for a job
  applied to.
\<close>

theorem onApply_when_applied_counterexample:
  "isApplied already_applied
   \<and> card_run linked_job False initial_JobCard confirm_when_applied
       = Some (initial_JobCard,
               [StopPropagation, WindowOpen (lit ''https://jobs.example/apply''),
                CallOnApply linked_job, ToastApplicationRecorded linked_job])
   \<and> card_step linked_job False
        \<lparr> card = \<lparr> showDetailModal = False, showApplyConfirmation = True \<rparr>, modal = False \<rparr>
        (already_applied, ClickConfirmApply)
       = Some (initial_JobCard, [CallOnApply linked_job, ToastApplicationRecorded linked_job])
   \<and> card_run linked_job False initial_JobCard confirm_twice
       = Some (\<lparr> card = \<lparr> showDetailModal = True, showApplyConfirmation = False \<rparr>,
                 modal = False \<rparr>,
               [StopPropagation, WindowOpen (lit ''https://jobs.example/apply''),
                WindowOpen (lit ''https://jobs.example/apply''),
                CallOnApply linked_job, ToastApplicationRecorded linked_job,
                CallOnApply linked_job, ToastApplicationRecorded linked_job])"
  by (simp add: confirm_when_applied_def confirm_twice_def initial_JobCard_def not_applied_def
      already_applied_def ChatPage_JobCard_props_def JobCard_handleApply_def
      JobCard_handleConfirmApply_def JobCard_ApplyConfirmationModal_def open_apply_link_def
      linked_job_def JobCard_handleCardClick_def modal_rendered_def
      modal_confirmation_rendered_def JobDetailModal_def JobDetailModal_ApplyConfirmationModal_def
      JobDetailModal_handleApplyClick_def JobDetailModal_handleConfirmApply_def from_modal_def)

end
